theory Spec2Isabelle
  imports Main "HOL-Library.Word" "HOL-Library.Sublist"
begin

section \<open>Severity (severity.go)\<close>

text \<open>
  \<^verbatim>\<open>type Severity int32\<close>: a 32-bit machine integer, read as signed with \<open>sint\<close>.
  The four constants are the \<^verbatim>\<open>iota\<close> block of severity.go.
\<close>

type_synonym Severity = "32 word"

definition SeverityDebug :: Severity where
  "SeverityDebug = 0"

definition SeverityInfo :: Severity where
  "SeverityInfo = 1"

definition SeverityWarning :: Severity where
  "SeverityWarning = 2"

definition SeverityError :: Severity where
  "SeverityError = 3"

definition severityNames :: "string list" where
  "severityNames = [''DEBUG'', ''INFO'', ''WARN'', ''ERROR'']"

text \<open>Run-time panics of the Go runtime that the modelled code can raise.\<close>

datatype panic = IndexOutOfRange | NilDereference

text \<open>
  \<^verbatim>\<open>func (s Severity) String() string { return severityNames[s] }\<close>.
  Indexing a slice with a negative index or one not below its length panics.
\<close>

definition Severity_String :: "Severity \<Rightarrow> panic + string" where
  "Severity_String s =
     (if 0 \<le> sint s \<and> sint s < int (length severityNames)
      then Inr (severityNames ! nat (sint s))
      else Inl IndexOutOfRange)"

text \<open>
  A Go \<^verbatim>\<open>error\<close> value made by \<^verbatim>\<open>errors.New\<close> or \<^verbatim>\<open>fmt.Errorf\<close>: it carries its
  message.
\<close>

datatype error = Error string

subsection \<open>strings.ToUpper\<close>

text \<open>
  Go strings are byte sequences, as \<^typ>\<open>string\<close> is. \<^verbatim>\<open>strings.ToUpper\<close> maps a string
  that is all ASCII byte by byte (\<^verbatim>\<open>a\<close>..\<^verbatim>\<open>z\<close> lose 32); any other string goes through
  \<^verbatim>\<open>strings.Map(unicode.ToUpper, s)\<close>, which rests on the Unicode tables of the Go
  library. That second path is the parameter \<open>U\<close> of the model.
\<close>

definition isASCII :: "string \<Rightarrow> bool" where
  "isASCII s = list_all (\<lambda>c. (of_char c :: nat) < 128) s"

definition upperByte :: "char \<Rightarrow> char" where
  "upperByte c =
     (if (97::nat) \<le> of_char c \<and> (of_char c :: nat) \<le> 122
      then char_of ((of_char c :: nat) - 32) else c)"

definition ToUpper :: "(string \<Rightarrow> string) \<Rightarrow> string \<Rightarrow> string" where
  "ToUpper U s = (if isASCII s then map upperByte s else U s)"

subsection \<open>severityFromString\<close>

text \<open>
  The loop \<^verbatim>\<open>for idx, name := range severityNames\<close>: the first index whose name
  equals \<open>s\<close>, or nothing when the loop falls through.
\<close>

fun rangeNames :: "nat \<Rightarrow> string list \<Rightarrow> string \<Rightarrow> nat option" where
  "rangeNames idx [] s = None"
| "rangeNames idx (name # names) s =
     (if name = s then Some idx else rangeNames (Suc idx) names s)"

text \<open>
  The Go function returns the pair \<^verbatim>\<open>(Severity, error)\<close>: \<^verbatim>\<open>(Severity(idx), nil)\<close> on a
  match and \<^verbatim>\<open>(-1, fmt.Errorf("unsupported severity: %s", s))\<close> otherwise, where \<open>s\<close>
  has already been overwritten by its upper-cased form.
\<close>

definition severityFromString :: "(string \<Rightarrow> string) \<Rightarrow> string \<Rightarrow> Severity \<times> error option" where
  "severityFromString U s0 =
     (let s = ToUpper U s0 in
      case rangeNames 0 severityNames s of
        Some idx \<Rightarrow> (of_nat idx, None)
      | None \<Rightarrow> (- 1, Some (Error (''unsupported severity: '' @ s))))"

section \<open>The facade (log.go)\<close>

subsection \<open>Data\<close>

text \<open>
  Values of type \<^verbatim>\<open>interface{}\<close> that a caller can pass as format arguments. A slice
  \<^verbatim>\<open>[]interface{}\<close> is itself such a value, which matters where a variadic argument list
  is handed on without \<^verbatim>\<open>...\<close>.
\<close>

datatype gvalue = IntV int | StrV string | SliceV "gvalue list"

text \<open>An \<^verbatim>\<open>io.Writer\<close> is identified by a handle.\<close>

type_synonym writer = nat

text \<open>
  The two methods of the \<^verbatim>\<open>Logger\<close> interface that the facade calls. \<open>Writer\<close> returns
  \<open>None\<close> for Go's \<^verbatim>\<open>nil\<close>.
\<close>

record Logger =
  Writer :: "Severity \<Rightarrow> writer option"
  FormatMessage :: "Severity \<Rightarrow> string \<Rightarrow> string \<Rightarrow> int \<Rightarrow> string \<Rightarrow> gvalue list \<Rightarrow> string"

record LogConfig =
  Name :: string
  Severity :: string

text \<open>
  \<^verbatim>\<open>fmt.Sprintf("LogConfig(Name=%v, Severity=%v)", c.Name, c.Severity)\<close>: the verb
  \<^verbatim>\<open>%v\<close> prints a string as it is.
\<close>

definition LogConfig_String :: "LogConfig \<Rightarrow> string" where
  "LogConfig_String c = ''LogConfig(Name='' @ Name c @ '', Severity='' @ Severity c @ '')''"

text \<open>
  What log.go uses and the two files do not define: the helpers \<^verbatim>\<open>callerInfo\<close> and
  \<^verbatim>\<open>stackTraces\<close>, the three backend constructors (each returns Go's pair of a
  \<^verbatim>\<open>Logger\<close>, \<open>None\<close> for \<^verbatim>\<open>nil\<close>, and an \<^verbatim>\<open>error\<close>), and the constants
  \<^verbatim>\<open>SeverityWarn\<close> and \<^verbatim>\<open>SeverityFatal\<close>. They are parameters of the model.
\<close>

record externals =
  callerInfo :: "int \<Rightarrow> string \<times> string \<times> int"
  stackTraces :: string
  NewConsoleLogger :: "LogConfig \<Rightarrow> Logger option \<times> error option"
  NewSysLogger :: "LogConfig \<Rightarrow> Logger option \<times> error option"
  NewUDPLogger :: "LogConfig \<Rightarrow> Logger option \<times> error option"
  SeverityWarn :: Severity
  SeverityFatal :: Severity

text \<open>
  The state of the process: the package variables \<^verbatim>\<open>loggers\<close> (a slice of interface
  values, each possibly \<^verbatim>\<open>nil\<close>) and \<^verbatim>\<open>message\<close> (assigned by \<^verbatim>\<open>writeMessage\<close>), the
  strings handed to \<^verbatim>\<open>io.WriteString\<close> so far with their writers, in order, and the
  configurations for which \<^verbatim>\<open>InitWithConfig\<close> has called \<^verbatim>\<open>NewLogger\<close>, in order.
\<close>

record proc =
  loggers :: "Logger option list"
  message :: string
  written :: "(writer \<times> string) list"
  attempted :: "LogConfig list"

text \<open>At process start the package variables hold their zero values.\<close>

definition start :: proc where
  "start = \<lparr>loggers = [], message = [], written = [], attempted = []\<rparr>"

text \<open>
  How a call can end other than by returning: a run-time panic, or \<^verbatim>\<open>os.Exit\<close> with a
  status. A function of the model returns \<open>None\<close> when the Go function returns normally.
\<close>

datatype signal = Panic panic | Exit int

subsection \<open>Initialisation\<close>

text \<open>\<^verbatim>\<open>Init\<close>: \<^verbatim>\<open>for _, logger := range l { loggers = append(loggers, logger) }\<close>.\<close>

fun Init :: "Logger option list \<Rightarrow> proc \<Rightarrow> proc" where
  "Init [] st = st"
| "Init (logger # l) st = Init l (st\<lparr>loggers := loggers st @ [logger]\<rparr>)"

definition NewLogger :: "externals \<Rightarrow> LogConfig \<Rightarrow> Logger option \<times> error option" where
  "NewLogger ext config =
     (if Name config = ''console'' then NewConsoleLogger ext config
      else if Name config = ''syslog'' then NewSysLogger ext config
      else if Name config = ''udplog'' then NewUDPLogger ext config
      else (None, Some (Error (''unknown logger: '' @ LogConfig_String config))))"

text \<open>
  \<^verbatim>\<open>InitWithConfig\<close>: the loop over the configurations, leaving at the first
  \<^verbatim>\<open>err != nil\<close>. Each call of \<^verbatim>\<open>NewLogger\<close> is recorded in \<open>attempted\<close>.
\<close>

fun InitWithConfig :: "externals \<Rightarrow> LogConfig list \<Rightarrow> proc \<Rightarrow> error option \<times> proc" where
  "InitWithConfig ext [] st = (None, st)"
| "InitWithConfig ext (config # logConfigs) st =
     (let st1 = st\<lparr>attempted := attempted st @ [config]\<rparr> in
      case NewLogger ext config of
        (l, Some err) \<Rightarrow> (Some err, st1)
      | (l, None) \<Rightarrow> InitWithConfig ext logConfigs (st1\<lparr>loggers := loggers st1 @ [l]\<rparr>))"

subsection \<open>Emission\<close>

text \<open>\<^verbatim>\<open>io.WriteString(w, s)\<close>; its result is ignored by the caller.\<close>

definition WriteString :: "writer \<Rightarrow> string \<Rightarrow> proc \<Rightarrow> proc" where
  "WriteString w s st = st\<lparr>written := written st @ [(w, s)]\<rparr>"

text \<open>
  \<^verbatim>\<open>writeMessage\<close>. Calling \<^verbatim>\<open>Writer\<close> on a \<^verbatim>\<open>nil\<close> interface value panics. \<open>args\<close> is
  the variadic parameter, passed on to \<^verbatim>\<open>FormatMessage\<close> with \<^verbatim>\<open>args...\<close>.
\<close>

definition writeMessage ::
  "externals \<Rightarrow> Logger option \<Rightarrow> int \<Rightarrow> Severity \<Rightarrow> string \<Rightarrow> gvalue list \<Rightarrow> proc
     \<Rightarrow> signal option \<times> proc" where
  "writeMessage ext logger callDepth sev format args st =
     (case callerInfo ext (callDepth + 1) of (fileName, funcName, lineNo) \<Rightarrow>
      (case logger of
         None \<Rightarrow> (Some (Panic NilDereference), st)
       | Some lg \<Rightarrow>
          (case Writer lg sev of
             None \<Rightarrow> (None, st)
           | Some w \<Rightarrow>
              (let st1 = st\<lparr>message := FormatMessage lg sev fileName funcName lineNo format args\<rparr>;
                   st2 = WriteString w (message st1) st1
               in (None, if sev = SeverityFatal ext
                         then WriteString w (stackTraces ext) st2 else st2)))))"

text \<open>
  \<^verbatim>\<open>for _, logger := range loggers { body }\<close>: the slice is read once, and a panic in
  the body leaves the loop.
\<close>

fun rangeLoggers ::
  "(Logger option \<Rightarrow> proc \<Rightarrow> signal option \<times> proc) \<Rightarrow> Logger option list \<Rightarrow> proc
     \<Rightarrow> signal option \<times> proc" where
  "rangeLoggers body [] st = (None, st)"
| "rangeLoggers body (logger # rest) st =
     (case body logger st of
        (None, st') \<Rightarrow> rangeLoggers body rest st'
      | (Some sig, st') \<Rightarrow> (Some sig, st'))"

text \<open>
  The four emission functions. Each calls
  \<^verbatim>\<open>writeMessage(logger, 1, sev, format, args)\<close>, with \<^verbatim>\<open>args\<close> and not \<^verbatim>\<open>args...\<close>: the
  slice of the caller's arguments is the single variadic argument of \<^verbatim>\<open>writeMessage\<close>.
  After its loop each function, \<^verbatim>\<open>Fatalf\<close> included, returns.
\<close>

definition Infof :: "externals \<Rightarrow> string \<Rightarrow> gvalue list \<Rightarrow> proc \<Rightarrow> signal option \<times> proc" where
  "Infof ext format args st =
     rangeLoggers (\<lambda>logger. writeMessage ext logger 1 SeverityInfo format [SliceV args])
       (loggers st) st"

definition Warnf :: "externals \<Rightarrow> string \<Rightarrow> gvalue list \<Rightarrow> proc \<Rightarrow> signal option \<times> proc" where
  "Warnf ext format args st =
     rangeLoggers (\<lambda>logger. writeMessage ext logger 1 (SeverityWarn ext) format [SliceV args])
       (loggers st) st"

definition Errorf :: "externals \<Rightarrow> string \<Rightarrow> gvalue list \<Rightarrow> proc \<Rightarrow> signal option \<times> proc" where
  "Errorf ext format args st =
     rangeLoggers (\<lambda>logger. writeMessage ext logger 1 SeverityError format [SliceV args])
       (loggers st) st"

definition Fatalf :: "externals \<Rightarrow> string \<Rightarrow> gvalue list \<Rightarrow> proc \<Rightarrow> signal option \<times> proc" where
  "Fatalf ext format args st =
     rangeLoggers (\<lambda>logger. writeMessage ext logger 1 (SeverityFatal ext) format [SliceV args])
       (loggers st) st"

text \<open>
  What one emission hands to one backend through \<^verbatim>\<open>writeMessage\<close> at call depth 1: nothing
  when the backend has no writer for the severity, else the formatted message and, for
  the fatal severity, the stack traces, both on that writer.
\<close>

definition deliveries ::
  "externals \<Rightarrow> Severity \<Rightarrow> string \<Rightarrow> gvalue list \<Rightarrow> Logger \<Rightarrow> (writer \<times> string) list" where
  "deliveries ext sev format args lg =
     (case Writer lg sev of
        None \<Rightarrow> []
      | Some w \<Rightarrow>
         (case callerInfo ext 2 of (fileName, funcName, lineNo) \<Rightarrow>
            (w, FormatMessage lg sev fileName funcName lineNo format args) #
            (if sev = SeverityFatal ext then [(w, stackTraces ext)] else [])))"

section \<open>Test doubles\<close>

subsection \<open>A fragment of fmt.Sprintf\<close>

text \<open>
  The Go library's \<^verbatim>\<open>fmt.Sprintf\<close>, for the directives \<^verbatim>\<open>%d\<close>, \<^verbatim>\<open>%v\<close>, \<^verbatim>\<open>%s\<close> and \<^verbatim>\<open>%%\<close>
  over integers, strings and slices of them. A slice prints as its elements under the
  same verb, separated by blanks, in square brackets; a verb that does not fit its operand
  prints \<^verbatim>\<open>%!verb(type=value)\<close>; a directive with no operand left prints
  \<^verbatim>\<open>%!verb(MISSING)\<close>; operands left over print \<^verbatim>\<open>%!(EXTRA type=value, ...)\<close>. Any
  other directive is outside the fragment: the result is \<open>None\<close>.
\<close>

definition digitChar :: "nat \<Rightarrow> char" where
  "digitChar n = char_of (48 + n)"

fun natDigits :: "nat \<Rightarrow> string" where
  "natDigits n = (if n < 10 then [digitChar n] else natDigits (n div 10) @ [digitChar (n mod 10)])"

declare natDigits.simps [simp del]

definition Itoa :: "int \<Rightarrow> string" where
  "Itoa i = (if i < 0 then CHR ''-'' # natDigits (nat (- i)) else natDigits (nat i))"

fun joinWith :: "string \<Rightarrow> string list \<Rightarrow> string" where
  "joinWith sep [] = []"
| "joinWith sep [x] = x"
| "joinWith sep (x # y # ys) = x @ sep @ joinWith sep (y # ys)"

fun printVerb :: "char \<Rightarrow> gvalue \<Rightarrow> string" where
  "printVerb verb (IntV i) =
     (if verb = CHR ''s'' then ''%!s(int='' @ Itoa i @ '')'' else Itoa i)"
| "printVerb verb (StrV s) =
     (if verb = CHR ''d'' then ''%!d(string='' @ s @ '')'' else s)"
| "printVerb verb (SliceV vs) = ''['' @ joinWith '' '' (map (printVerb verb) vs) @ '']''"

fun typeName :: "gvalue \<Rightarrow> string" where
  "typeName (IntV i) = ''int''"
| "typeName (StrV s) = ''string''"
| "typeName (SliceV vs) = ''[]interface {}''"

fun Sprintf :: "string \<Rightarrow> gvalue list \<Rightarrow> string option" where
  "Sprintf [] [] = Some []"
| "Sprintf [] (a # as) =
     Some (''%!(EXTRA '' @
           joinWith '', '' (map (\<lambda>v. typeName v @ ''='' @ printVerb CHR ''v'' v) (a # as)) @ '')'')"
| "Sprintf [c] as =
     (if c = CHR ''%'' then None else map_option ((#) c) (Sprintf [] as))"
| "Sprintf (c # verb # rest) as =
     (if c \<noteq> CHR ''%'' then map_option ((#) c) (Sprintf (verb # rest) as)
      else if verb = CHR ''%'' then map_option ((#) CHR ''%'') (Sprintf rest as)
      else if verb = CHR ''d'' \<or> verb = CHR ''v'' \<or> verb = CHR ''s'' then
        (case as of
           [] \<Rightarrow> map_option ((@) (''%!'' @ [verb] @ ''(MISSING)'')) (Sprintf rest [])
         | a # as' \<Rightarrow> map_option ((@) (printVerb verb a)) (Sprintf rest as'))
      else None)"

subsection \<open>A backend and an environment for evaluation\<close>

text \<open>
  A backend writing to the buffer \<open>w\<close>: it gives its writer to the severities from
  \<open>minSev\<close> upwards, and its \<^verbatim>\<open>FormatMessage\<close> is
  \<^verbatim>\<open>fmt.Sprintf(format, args...)\<close>. For a format outside the fragment above the double
  returns the format itself.
\<close>

definition bufferLogger :: "writer \<Rightarrow> Severity \<Rightarrow> Logger" where
  "bufferLogger w minSev =
     \<lparr>Writer = (\<lambda>sev. if sint minSev \<le> sint sev then Some w else None),
      FormatMessage = (\<lambda>sev fileName funcName lineNo format args.
         case Sprintf format args of Some text \<Rightarrow> text | None \<Rightarrow> format)\<rparr>"

text \<open>
  A constructor that fails when the configured severity name does not parse, and
  otherwise builds a buffer backend with that minimum severity.
\<close>

definition bufferConstructor :: "writer \<Rightarrow> LogConfig \<Rightarrow> Logger option \<times> error option" where
  "bufferConstructor w config =
     (case severityFromString (\<lambda>s. s) (Severity config) of
        (sev, None) \<Rightarrow> (Some (bufferLogger w sev), None)
      | (sev, Some err) \<Rightarrow> (None, Some err))"

text \<open>
  An environment for evaluation: a fixed caller location and stack dump, the three
  constructors building buffer backends on the writers 1, 2 and 3, and the values 2 and 4
  for \<^verbatim>\<open>SeverityWarn\<close> and \<^verbatim>\<open>SeverityFatal\<close>.
\<close>

definition testExt :: externals where
  "testExt =
     \<lparr>callerInfo = (\<lambda>depth. (''main.go'', ''main.run'', 12)),
      stackTraces = ''goroutine 1 [running]:'',
      NewConsoleLogger = bufferConstructor 1,
      NewSysLogger = bufferConstructor 2,
      NewUDPLogger = bufferConstructor 3,
      SeverityWarn = 2,
      SeverityFatal = 4\<rparr>"

section \<open>Properties of the severity conversions\<close>

subsection \<open>Upper-casing of ASCII strings\<close>






subsection \<open>The defined levels and the name table\<close>

lemma sev_range:
  "(0 \<le> sint (s::Severity) \<and> sint s < 4) =
     (s \<in> {SeverityDebug, SeverityInfo, SeverityWarning, SeverityError})"
proof
  assume a: "0 \<le> sint s \<and> sint s < 4"
  then have "sint s = 0 \<or> sint s = 1 \<or> sint s = 2 \<or> sint s = 3" by arith
  moreover have "s = word_of_int (sint s)" by simp
  ultimately have "s = 0 \<or> s = 1 \<or> s = 2 \<or> s = 3"
    by (metis of_int_0 of_int_1 of_int_numeral)
  then show "s \<in> {SeverityDebug, SeverityInfo, SeverityWarning, SeverityError}"
    by (simp add: SeverityDebug_def SeverityInfo_def SeverityWarning_def SeverityError_def)
next
  assume "s \<in> {SeverityDebug, SeverityInfo, SeverityWarning, SeverityError}"
  then show "0 \<le> sint s \<and> sint s < 4"
    by (auto simp add: SeverityDebug_def SeverityInfo_def SeverityWarning_def SeverityError_def)
qed

lemma rangeNames_None: "(rangeNames idx names s = None) = (s \<notin> set names)"
  by (induction names arbitrary: idx) auto

lemma set_severityNames: "set severityNames = {''DEBUG'', ''INFO'', ''WARN'', ''ERROR''}"
  by (simp add: severityNames_def)

lemma Severity_String_values:
  "Severity_String SeverityDebug = Inr ''DEBUG''"
  "Severity_String SeverityInfo = Inr ''INFO''"
  "Severity_String SeverityWarning = Inr ''WARN''"
  "Severity_String SeverityError = Inr ''ERROR''"
  by (simp_all add: Severity_String_def severityNames_def SeverityDebug_def SeverityInfo_def
      SeverityWarning_def SeverityError_def)


subsection \<open>Severity.String\<close>

text \<open>
  Claim C9. \<^verbatim>\<open>Severity.String\<close> returns the names DEBUG, INFO, WARN and ERROR for
  \<^verbatim>\<open>SeverityDebug\<close>, \<^verbatim>\<open>SeverityInfo\<close>, \<^verbatim>\<open>SeverityWarning\<close> and \<^verbatim>\<open>SeverityError\<close>, and it
  panics exactly on the values that are none of these four, which are the values whose
  signed reading is negative or at least 4.
\<close>

theorem Severity_String_total_on_defined:
  "Severity_String SeverityDebug = Inr ''DEBUG'' \<and>
   Severity_String SeverityInfo = Inr ''INFO'' \<and>
   Severity_String SeverityWarning = Inr ''WARN'' \<and>
   Severity_String SeverityError = Inr ''ERROR'' \<and>
   ((\<exists>p. Severity_String s = Inl p) =
      (s \<notin> {SeverityDebug, SeverityInfo, SeverityWarning, SeverityError})) \<and>
   ((Severity_String s = Inl IndexOutOfRange) = (sint s < 0 \<or> 4 \<le> sint s))"
proof -
  have len: "int (length severityNames) = 4" by (simp add: severityNames_def)
  have a: "(\<exists>p. Severity_String s = Inl p) = (\<not> (0 \<le> sint s \<and> sint s < 4))"
    by (simp add: Severity_String_def len)
  have b: "(Severity_String s = Inl IndexOutOfRange) = (sint s < 0 \<or> 4 \<le> sint s)"
    by (auto simp add: Severity_String_def len)
  show ?thesis
    unfolding a b sev_range by (simp add: Severity_String_values)
qed

theorem Severity_String_total_witness:
  "Severity_String (- 1) = Inl IndexOutOfRange \<and> Severity_String 4 = Inl IndexOutOfRange \<and>
   Severity_String 2 = Inr ''WARN''"
  using Severity_String_total_on_defined [of "- 1"] Severity_String_total_on_defined [of 4]
  by (simp add: SeverityWarning_def)

subsection \<open>severityFromString\<close>



text \<open>
  Claim C5. \<^verbatim>\<open>severityFromString\<close> returns an error exactly when the upper-cased name
  is none of DEBUG, INFO, WARN, ERROR; the result is then \<^verbatim>\<open>-1\<close> with the error
  \<^verbatim>\<open>unsupported severity: \<close> followed by the upper-cased name. \<^verbatim>\<open>TRACE\<close> is such a name.
\<close>

theorem severityFromString_unsupported:
  "((\<exists>e. snd (severityFromString U name) = Some e) =
      (ToUpper U name \<notin> {''DEBUG'', ''INFO'', ''WARN'', ''ERROR''})) \<and>
   ((severityFromString U name =
       (- 1, Some (Error (''unsupported severity: '' @ ToUpper U name)))) =
      (ToUpper U name \<notin> {''DEBUG'', ''INFO'', ''WARN'', ''ERROR''})) \<and>
   severityFromString U ''TRACE'' = (- 1, Some (Error ''unsupported severity: TRACE''))"
proof -
  have t: "severityFromString U ''TRACE'' = (- 1, Some (Error ''unsupported severity: TRACE''))"
    by code_simp
  have n: "(rangeNames 0 severityNames (ToUpper U name) = None) =
      (ToUpper U name \<notin> {''DEBUG'', ''INFO'', ''WARN'', ''ERROR''})"
    by (simp only: rangeNames_None set_severityNames)
  show ?thesis
    using n t by (auto simp add: severityFromString_def Let_def split: option.splits)
qed

theorem severityFromString_unsupported_witness:
  "severityFromString (\<lambda>s. s) ''trace'' = (- 1, Some (Error ''unsupported severity: TRACE'')) \<and>
   snd (severityFromString (\<lambda>s. s) ''Info'') = None"
proof -
  have a: "ToUpper (\<lambda>s. s) ''trace'' = ''TRACE''" by code_simp
  have b: "ToUpper (\<lambda>s. s) ''Info'' = ''INFO''" by code_simp
  from severityFromString_unsupported [of "\<lambda>s. s" "''trace''"]
    severityFromString_unsupported [of "\<lambda>s. s" "''Info''"]
  show ?thesis unfolding a b by simp
qed

section \<open>Properties of the facade\<close>

subsection \<open>Initialisation\<close>

lemma Init_appends: "Init l st = st\<lparr>loggers := loggers st @ l\<rparr>"
  by (induction l arbitrary: st) simp_all

lemma InitWithConfig_all_ok:
  "\<forall>c \<in> set cfgs. snd (NewLogger ext c) = None \<Longrightarrow>
   InitWithConfig ext cfgs st =
     (None, st\<lparr>attempted := attempted st @ cfgs,
               loggers := loggers st @ map (\<lambda>c. fst (NewLogger ext c)) cfgs\<rparr>)"
proof (induction cfgs arbitrary: st)
  case Nil
  then show ?case by simp
next
  case (Cons c cfgs)
  then obtain l where l: "NewLogger ext c = (l, None)"
    by (cases "NewLogger ext c") auto
  from Cons show ?case by (simp add: l)
qed

lemma InitWithConfig_append:
  "\<forall>c \<in> set pre. snd (NewLogger ext c) = None \<Longrightarrow>
   InitWithConfig ext (pre @ rest) st =
     InitWithConfig ext rest
       (st\<lparr>attempted := attempted st @ pre,
           loggers := loggers st @ map (\<lambda>c. fst (NewLogger ext c)) pre\<rparr>)"
proof (induction pre arbitrary: st)
  case Nil
  then show ?case by simp
next
  case (Cons c pre)
  then obtain l where l: "NewLogger ext c = (l, None)"
    by (cases "NewLogger ext c") auto
  from Cons show ?case by (simp add: l)
qed

lemma InitWithConfig_fails_at:
  assumes "\<forall>c \<in> set pre. snd (NewLogger ext c) = None"
    and "snd (NewLogger ext c) = Some err"
  shows "InitWithConfig ext (pre @ c # post) st =
     (Some err, st\<lparr>attempted := attempted st @ pre @ [c],
                   loggers := loggers st @ map (\<lambda>c. fst (NewLogger ext c)) pre\<rparr>)"
proof -
  obtain l where l: "NewLogger ext c = (l, Some err)"
    using assms(2) by (cases "NewLogger ext c") auto
  show ?thesis
    by (simp add: InitWithConfig_append [OF assms(1)] l)
qed

lemma InitWithConfig_prefix:
  "prefix (loggers st) (loggers (snd (InitWithConfig ext cfgs st)))"
proof (induction cfgs arbitrary: st)
  case Nil
  then show ?case by simp
next
  case (Cons c cfgs)
  show ?case
  proof (cases "NewLogger ext c")
    case (Pair l e)
    show ?thesis
    proof (cases e)
      case None
      have "prefix (loggers st) (loggers st @ [l])" by simp
      also have "prefix \<dots> (loggers (snd (InitWithConfig ext cfgs
          (st\<lparr>attempted := attempted st @ [c], loggers := loggers st @ [l]\<rparr>))))"
        using Cons [of "st\<lparr>attempted := attempted st @ [c], loggers := loggers st @ [l]\<rparr>"]
        by simp
      finally show ?thesis by (simp add: Pair None)
    next
      case (Some err)
      then show ?thesis by (simp add: Pair)
    qed
  qed
qed

lemma parse_examples:
  "severityFromString (\<lambda>s. s) ''info'' = (SeverityInfo, None)"
  "severityFromString (\<lambda>s. s) ''warn'' = (SeverityWarning, None)"
  "severityFromString (\<lambda>s. s) ''loud'' = (- 1, Some (Error ''unsupported severity: LOUD''))"
  by code_simp+

lemma NewLogger_testExt:
  "NewLogger testExt \<lparr>Name = ''console'', Severity = ''info''\<rparr> =
     (Some (bufferLogger 1 SeverityInfo), None)"
  "NewLogger testExt \<lparr>Name = ''syslog'', Severity = ''warn''\<rparr> =
     (Some (bufferLogger 2 SeverityWarning), None)"
  "NewLogger testExt \<lparr>Name = ''udplog'', Severity = ''loud''\<rparr> =
     (None, Some (Error ''unsupported severity: LOUD''))"
  "NewLogger testExt \<lparr>Name = ''bogus'', Severity = ''info''\<rparr> =
     (None, Some (Error ''unknown logger: LogConfig(Name=bogus, Severity=info)''))"
  by (simp_all add: NewLogger_def testExt_def bufferConstructor_def parse_examples
      LogConfig_String_def)

text \<open>
  Claim C3. \<^verbatim>\<open>InitWithConfig\<close> calls \<^verbatim>\<open>NewLogger\<close> on the configurations in order. When
  every construction succeeds, all the backends are appended to the registry in order and
  no error is returned. When the configurations before \<open>bad\<close> succeed and \<open>bad\<close> fails
  with \<open>err\<close>, that error is returned, the backends built before it stay appended, and
  \<^verbatim>\<open>NewLogger\<close> has been called for nothing after \<open>bad\<close>.
\<close>

theorem InitWithConfig_stops_at_first_failure:
  "((\<forall>c \<in> set cfgs. snd (NewLogger ext c) = None) \<longrightarrow>
      InitWithConfig ext cfgs st =
        (None, st\<lparr>attempted := attempted st @ cfgs,
                  loggers := loggers st @ map (\<lambda>c. fst (NewLogger ext c)) cfgs\<rparr>)) \<and>
   ((\<forall>c \<in> set pre. snd (NewLogger ext c) = None) \<and> snd (NewLogger ext bad) = Some err \<longrightarrow>
      InitWithConfig ext (pre @ bad # post) st =
        (Some err, st\<lparr>attempted := attempted st @ pre @ [bad],
                      loggers := loggers st @ map (\<lambda>c. fst (NewLogger ext c)) pre\<rparr>))"
  using InitWithConfig_all_ok [of cfgs ext st] InitWithConfig_fails_at [of pre ext bad err post st]
  by blast

theorem InitWithConfig_witness:
  "InitWithConfig testExt
     [\<lparr>Name = ''console'', Severity = ''info''\<rparr>, \<lparr>Name = ''udplog'', Severity = ''loud''\<rparr>,
      \<lparr>Name = ''syslog'', Severity = ''warn''\<rparr>] start =
     (Some (Error ''unsupported severity: LOUD''),
      start\<lparr>attempted := [\<lparr>Name = ''console'', Severity = ''info''\<rparr>,
                           \<lparr>Name = ''udplog'', Severity = ''loud''\<rparr>],
            loggers := [Some (bufferLogger 1 SeverityInfo)]\<rparr>) \<and>
   InitWithConfig testExt
     [\<lparr>Name = ''console'', Severity = ''info''\<rparr>, \<lparr>Name = ''syslog'', Severity = ''warn''\<rparr>] start =
     (None,
      start\<lparr>attempted := [\<lparr>Name = ''console'', Severity = ''info''\<rparr>,
                           \<lparr>Name = ''syslog'', Severity = ''warn''\<rparr>],
            loggers := [Some (bufferLogger 1 SeverityInfo), Some (bufferLogger 2 SeverityWarning)]\<rparr>)"
  using
    InitWithConfig_stops_at_first_failure [of
      "[\<lparr>Name = ''console'', Severity = ''info''\<rparr>, \<lparr>Name = ''syslog'', Severity = ''warn''\<rparr>]"
      testExt start "[\<lparr>Name = ''console'', Severity = ''info''\<rparr>]"
      "\<lparr>Name = ''udplog'', Severity = ''loud''\<rparr>" "Error ''unsupported severity: LOUD''"
      "[\<lparr>Name = ''syslog'', Severity = ''warn''\<rparr>]"]
  by (simp add: NewLogger_testExt start_def)

text \<open>
  Claim C6. \<^verbatim>\<open>NewLogger\<close> hands a configuration named \<^verbatim>\<open>console\<close>, \<^verbatim>\<open>syslog\<close> or
  \<^verbatim>\<open>udplog\<close> to the console, syslog or UDP constructor and returns what it returns. For
  any other name it returns no logger and an error whose message is
  \<^verbatim>\<open>unknown logger: LogConfig(Name=X, Severity=Y)\<close>, so the message contains the
  rendering of the configuration and both of its fields.
\<close>

theorem NewLogger_dispatch:
  "(Name config = ''console'' \<longrightarrow> NewLogger ext config = NewConsoleLogger ext config) \<and>
   (Name config = ''syslog'' \<longrightarrow> NewLogger ext config = NewSysLogger ext config) \<and>
   (Name config = ''udplog'' \<longrightarrow> NewLogger ext config = NewUDPLogger ext config) \<and>
   (Name config \<notin> {''console'', ''syslog'', ''udplog''} \<longrightarrow>
      (\<exists>msg. NewLogger ext config = (None, Some (Error msg)) \<and>
         msg = ''unknown logger: LogConfig(Name='' @ Name config @ '', Severity='' @
                 Severity config @ '')'' \<and>
         sublist (LogConfig_String config) msg \<and>
         sublist (Name config) msg \<and> sublist (Severity config) msg))"
proof -
  have n: "sublist (Name config) (LogConfig_String config)"
    unfolding LogConfig_String_def by (rule sublist_appendI)
  have "sublist (Severity config)
      ((''LogConfig(Name='' @ Name config @ '', Severity='') @ Severity config @ '')'')"
    by (rule sublist_appendI)
  then have s: "sublist (Severity config) (LogConfig_String config)"
    by (simp add: LogConfig_String_def)
  have c: "sublist (LogConfig_String config) (''unknown logger: '' @ LogConfig_String config)"
    by (rule sublist_append_leftI)
  have m: "''unknown logger: '' @ LogConfig_String config =
      ''unknown logger: LogConfig(Name='' @ Name config @ '', Severity='' @ Severity config @ '')''"
    by (simp add: LogConfig_String_def)
  from n c have n': "sublist (Name config) (''unknown logger: '' @ LogConfig_String config)"
    by (rule sublist_order.order_trans)
  from s c have s': "sublist (Severity config) (''unknown logger: '' @ LogConfig_String config)"
    by (rule sublist_order.order_trans)
  have u: "Name config \<notin> {''console'', ''syslog'', ''udplog''} \<Longrightarrow>
      NewLogger ext config = (None, Some (Error (''unknown logger: '' @ LogConfig_String config)))"
    by (simp add: NewLogger_def)
  show ?thesis
    using u c n' s' m by (simp add: NewLogger_def)
qed

theorem NewLogger_dispatch_witness:
  "NewLogger testExt \<lparr>Name = ''bogus'', Severity = ''info''\<rparr> =
     (None, Some (Error ''unknown logger: LogConfig(Name=bogus, Severity=info)'')) \<and>
   NewLogger testExt \<lparr>Name = ''syslog'', Severity = ''warn''\<rparr> =
     NewSysLogger testExt \<lparr>Name = ''syslog'', Severity = ''warn''\<rparr>"
  using NewLogger_dispatch [of "\<lparr>Name = ''bogus'', Severity = ''info''\<rparr>" testExt]
    NewLogger_dispatch [of "\<lparr>Name = ''syslog'', Severity = ''warn''\<rparr>" testExt]
  by simp

subsection \<open>Emission\<close>

lemma writeMessage_loggers:
  "loggers (snd (writeMessage ext logger d sev format args st)) = loggers st"
  by (simp add: writeMessage_def WriteString_def Let_def split: prod.splits option.splits)

lemma rangeLoggers_loggers:
  "(\<And>logger s. loggers (snd (body logger s)) = loggers s) \<Longrightarrow>
   loggers (snd (rangeLoggers body ls st)) = loggers st"
proof (induction ls arbitrary: st)
  case Nil
  then show ?case by simp
next
  case (Cons l ls)
  show ?case
  proof (cases "body l st")
    case (Pair sg st')
    have "loggers st' = loggers st" using Cons.prems [of l st] Pair by simp
    with Cons Pair show ?thesis by (cases sg) simp_all
  qed
qed

lemma writeMessage_written:
  "writeMessage ext (Some lg) 1 sev format args st = (sg, st') \<Longrightarrow>
     sg = None \<and> written st' = written st @ deliveries ext sev format args lg \<and>
     loggers st' = loggers st"
  by (auto simp add: writeMessage_def WriteString_def deliveries_def Let_def
      split: prod.splits option.splits)

lemma rangeLoggers_written:
  "rangeLoggers (\<lambda>logger. writeMessage ext logger 1 sev format args) (map Some lgs) st = (sg, st')
   \<Longrightarrow> sg = None \<and> written st' = written st @ concat (map (deliveries ext sev format args) lgs)"
proof (induction lgs arbitrary: st)
  case Nil
  then show ?case by simp
next
  case (Cons lg lgs)
  obtain s1 st1 where w: "writeMessage ext (Some lg) 1 sev format args st = (s1, st1)"
    by (cases "writeMessage ext (Some lg) 1 sev format args st")
  from writeMessage_written [OF w] have s1: "s1 = None"
    and w1: "written st1 = written st @ deliveries ext sev format args lg" by simp_all
  from Cons.prems
  have "rangeLoggers (\<lambda>logger. writeMessage ext logger 1 sev format args) (map Some lgs) st1 =
      (sg, st')"
    by (simp add: w s1)
  from Cons.IH [OF this] show ?case by (simp add: w1)
qed

text \<open>
  With no \<^verbatim>\<open>nil\<close> entry in the registry, each emission function returns normally, and
  what it writes is, backend by backend in registration order, what \<open>deliveries\<close> gives
  for the one-element argument list that holds the slice of the caller's arguments.
\<close>

lemma emission_writes:
  assumes "loggers st = map Some lgs"
  shows "fst (Infof ext format args st) = None \<and>
     written (snd (Infof ext format args st)) =
       written st @ concat (map (deliveries ext SeverityInfo format [SliceV args]) lgs)"
    and "fst (Warnf ext format args st) = None \<and>
     written (snd (Warnf ext format args st)) =
       written st @ concat (map (deliveries ext (SeverityWarn ext) format [SliceV args]) lgs)"
    and "fst (Errorf ext format args st) = None \<and>
     written (snd (Errorf ext format args st)) =
       written st @ concat (map (deliveries ext SeverityError format [SliceV args]) lgs)"
    and "fst (Fatalf ext format args st) = None \<and>
     written (snd (Fatalf ext format args st)) =
       written st @ concat (map (deliveries ext (SeverityFatal ext) format [SliceV args]) lgs)"
  using rangeLoggers_written [of ext _ format "[SliceV args]" lgs st, OF surjective_pairing]
  by (simp_all add: Infof_def Warnf_def Errorf_def Fatalf_def assms)

text \<open>A \<^verbatim>\<open>nil\<close> entry at the head of the registry makes the loop panic at once.\<close>

lemma emission_nil_logger_panics:
  "rangeLoggers (\<lambda>logger. writeMessage ext logger 1 sev format args) (None # rest) st =
     (Some (Panic NilDereference), st)"
  by (simp add: writeMessage_def split: prod.splits)

text \<open>
  The only way an emission function ends other than by returning is the panic on a \<^verbatim>\<open>nil\<close>
  registry entry; in particular \<^verbatim>\<open>Fatalf\<close> never ends the process with an exit status.
\<close>

lemma writeMessage_signal:
  "fst (writeMessage ext logger d sev format args st) \<in> {None, Some (Panic NilDereference)}"
  by (simp add: writeMessage_def Let_def split: prod.splits option.splits)

lemma rangeLoggers_signal:
  "fst (rangeLoggers (\<lambda>logger. writeMessage ext logger d sev format args) ls st)
     \<in> {None, Some (Panic NilDereference)}"
proof (induction ls arbitrary: st)
  case Nil
  then show ?case by simp
next
  case (Cons l ls)
  show ?case
  proof (cases "writeMessage ext l d sev format args st")
    case (Pair sg st')
    show ?thesis
    proof (cases sg)
      case None
      with Pair Cons [of st'] show ?thesis by simp
    next
      case (Some x)
      with Pair writeMessage_signal [of ext l d sev format args st] show ?thesis by simp
    qed
  qed
qed

lemma Fatalf_never_exits: "fst (Fatalf ext format args st) \<noteq> Some (Exit code)"
  using rangeLoggers_signal [of ext 1 "SeverityFatal ext" format "[SliceV args]" "loggers st" st]
  by (auto simp add: Fatalf_def)

text \<open>
  Claim C8. With an empty registry each of \<^verbatim>\<open>Infof\<close>, \<^verbatim>\<open>Warnf\<close>, \<^verbatim>\<open>Errorf\<close> and
  \<^verbatim>\<open>Fatalf\<close>, for any format and arguments, returns normally (no panic) and leaves the
  whole state as it was: nothing is written and the registry stays empty.
\<close>

theorem emission_before_init_is_noop:
  "loggers st = [] \<Longrightarrow>
     Infof ext format args st = (None, st) \<and> Warnf ext format args st = (None, st) \<and>
     Errorf ext format args st = (None, st) \<and> Fatalf ext format args st = (None, st)"
  by (simp add: Infof_def Warnf_def Errorf_def Fatalf_def)

theorem emission_before_init_witness:
  "loggers start = [] \<and>
   Infof testExt ''x=%d'' [IntV 5] start = (None, start) \<and>
   Warnf testExt ''x=%d'' [IntV 5] start = (None, start) \<and>
   Errorf testExt ''x=%d'' [IntV 5] start = (None, start) \<and>
   Fatalf testExt ''x=%d'' [IntV 5] start = (None, start)"
proof -
  have e: "loggers start = []" by (simp add: start_def)
  from emission_before_init_is_noop [OF e, of testExt "''x=%d''" "[IntV 5]"] e
  show ?thesis by simp
qed

text \<open>
  Claim C10. The registry is empty at process start. \<^verbatim>\<open>Init\<close> appends its arguments
  to it, and after \<^verbatim>\<open>Init\<close> or \<^verbatim>\<open>InitWithConfig\<close> the old registry is a prefix of the new
  one. The four emission functions leave the registry as it was.
\<close>

theorem registry_append_only:
  "loggers start = [] \<and>
   loggers (Init l st) = loggers st @ l \<and>
   prefix (loggers st) (loggers (Init l st)) \<and>
   prefix (loggers st) (loggers (snd (InitWithConfig ext cfgs st))) \<and>
   loggers (snd (Infof ext format args st)) = loggers st \<and>
   loggers (snd (Warnf ext format args st)) = loggers st \<and>
   loggers (snd (Errorf ext format args st)) = loggers st \<and>
   loggers (snd (Fatalf ext format args st)) = loggers st"
  by (simp add: start_def Init_appends InitWithConfig_prefix Infof_def Warnf_def Errorf_def
      Fatalf_def rangeLoggers_loggers writeMessage_loggers)

theorem registry_append_only_witness:
  "loggers (Init [Some (bufferLogger 8 SeverityError)]
      (Init [Some (bufferLogger 7 SeverityInfo)] start)) =
     [Some (bufferLogger 7 SeverityInfo), Some (bufferLogger 8 SeverityError)] \<and>
   loggers (snd (Fatalf testExt ''disk full'' []
      (Init [Some (bufferLogger 7 SeverityInfo)] start))) = [Some (bufferLogger 7 SeverityInfo)]"
  using registry_append_only [of "[Some (bufferLogger 8 SeverityError)]"
      "Init [Some (bufferLogger 7 SeverityInfo)] start"]
    registry_append_only [of "[Some (bufferLogger 7 SeverityInfo)]" start testExt "[]"
      "''disk full''" "[]"]
  by simp

subsection \<open>Where the code departs from its description\<close>

text \<open>
  Claim C1. \<^verbatim>\<open>Fatalf\<close> on a registry of two buffer backends: each backend is written the
  message and then the stack traces, and after that the call returns to its caller. The
  result carries no signal: the process has not exited.
\<close>

theorem Fatalf_returns_without_exit:
  "fst (Fatalf testExt ''disk full'' []
      (Init [Some (bufferLogger 7 SeverityInfo), Some (bufferLogger 8 SeverityError)] start)) = None \<and>
   written (snd (Fatalf testExt ''disk full'' []
      (Init [Some (bufferLogger 7 SeverityInfo), Some (bufferLogger 8 SeverityError)] start))) =
     [(7, ''disk full%!(EXTRA []interface {}=[])''), (7, ''goroutine 1 [running]:''),
      (8, ''disk full%!(EXTRA []interface {}=[])''), (8, ''goroutine 1 [running]:'')]"
  by code_simp

text \<open>
  Claim C2. \<^verbatim>\<open>Infof("x=%d", 5)\<close> on a registry of a backend with minimum severity INFO
  and one with minimum severity ERROR: the second receives nothing and the first receives
  one message, whose text is \<^verbatim>\<open>x=[5]\<close>. It does not contain \<^verbatim>\<open>x=5\<close>, which is what the
  backend's formatter gives for the format and the argument 5 themselves.
\<close>

theorem Infof_formats_wrapped_slice:
  "written (snd (Infof testExt ''x=%d'' [IntV 5]
      (Init [Some (bufferLogger 7 SeverityInfo), Some (bufferLogger 8 SeverityError)] start))) =
     [(7, ''x=[5]'')] \<and>
   \<not> sublist ''x=5'' ''x=[5]'' \<and>
   Sprintf ''x=%d'' [IntV 5] = Some ''x=5''"
  by code_simp

text \<open>
  Claim C7. \<^verbatim>\<open>Errorf("%s failed after %d tries", "sync", 3)\<close> on a registry of three
  backends, the second without a writer for ERROR: the first and the third are written
  to, in registration order, and the second is not. The string written is the backend's
  \<^verbatim>\<open>FormatMessage\<close> applied to the one-element argument list holding the slice of the
  call's arguments, which differs from \<^verbatim>\<open>FormatMessage\<close> applied to the call's
  arguments.
\<close>

theorem Errorf_formatter_arguments:
  "written (snd (Errorf testExt ''%s failed after %d tries'' [StrV ''sync'', IntV 3]
      (Init [Some (bufferLogger 7 SeverityInfo), Some (bufferLogger 8 4),
             Some (bufferLogger 9 SeverityError)] start))) =
     [(7, ''[sync %!s(int=3)] failed after %!d(MISSING) tries''),
      (9, ''[sync %!s(int=3)] failed after %!d(MISSING) tries'')] \<and>
   FormatMessage (bufferLogger 7 SeverityInfo) SeverityError ''main.go'' ''main.run'' 12
      ''%s failed after %d tries'' [SliceV [StrV ''sync'', IntV 3]] =
     ''[sync %!s(int=3)] failed after %!d(MISSING) tries'' \<and>
   FormatMessage (bufferLogger 7 SeverityInfo) SeverityError ''main.go'' ''main.run'' 12
      ''%s failed after %d tries'' [StrV ''sync'', IntV 3] =
     ''sync failed after 3 tries''"
  by code_simp

end
